theory Spec2Isabelle
  imports Complex_Main
begin

section \<open>Tables of the polling schema\<close>

text \<open>
  The rows follow \<^verbatim>\<open>scripts/005-fix-table-dependencies.sql\<close>. A poll row keeps the
  columns the service reads and writes; \<^verbatim>\<open>created_at\<close> (filled by \<^verbatim>\<open>NOW()\<close> and only
  reformatted for display) is left out. A vote row keeps the three columns that
  \<^verbatim>\<open>castVote\<close> supplies; its generated \<^verbatim>\<open>id\<close>, \<^verbatim>\<open>created_at\<close> and the never written
  \<^verbatim>\<open>voter_ip\<close> are left out. Identifiers are opaque strings. The column \<^verbatim>\<open>id\<close> of a
  poll is called \<open>id'\<close> and the column \<^verbatim>\<open>option_index\<close> of a vote \<open>vote_option_index\<close>,
  because \<open>id\<close> is a constant of HOL and \<open>option_index\<close> is also a field of the
  statistics entries below.

  A string of the program is the list of its Unicode code points (\<open>ustring\<close>). SQL's
  \<^verbatim>\<open>length\<close> and the bound of a \<^verbatim>\<open>VARCHAR(n)\<close> column count code points, which is
  \<open>length\<close> here; JavaScript's \<^verbatim>\<open>String.length\<close> counts UTF-16 code units
  (\<open>js_length\<close>), two for every code point from U+10000 on. \<open>str\<close> writes such a string as a
  literal. Error codes of the storage layer stay plain strings.
\<close>

type_synonym ustring = "nat list"

type_synonym uuid = ustring

type_synonym pg_code = string

definition str :: "string \<Rightarrow> ustring" where
  "str s = map of_char s"


text \<open>
  The storage layer cannot hold the character U+0000 in a \<^verbatim>\<open>TEXT\<close>, \<^verbatim>\<open>VARCHAR\<close> or
  \<^verbatim>\<open>UUID\<close> value: a request whose strings contain it is refused with 22P05.
\<close>

definition has_nul :: "ustring \<Rightarrow> bool" where
  "has_nul s = (0 \<in> set s)"

text \<open>
  Storing into a \<^verbatim>\<open>VARCHAR(n)\<close> column: a value of at most \<open>n\<close> characters is kept; a
  longer one whose excess characters are all spaces is cut to \<open>n\<close> characters; any other
  longer value is refused (22001, the result \<open>None\<close>).
\<close>

definition varchar :: "nat \<Rightarrow> ustring \<Rightarrow> ustring option" where
  "varchar n s =
     (if length s \<le> n then Some s
      else if list_all (\<lambda>c. c = 32) (drop n s) then Some (take n s)
      else None)"

record poll =
  id' :: uuid
  question :: ustring
  options :: "ustring list"
  user_id :: "uuid option"
  is_public :: bool
  share_token :: "ustring option"

record vote =
  poll_id :: uuid
  vote_option_index :: int
  voter_session :: ustring

record database =
  polls :: "poll list"
  votes :: "vote list"

section \<open>The client session and its replies\<close>

text \<open>
  A call of the storage client is made by a session: the authenticated user (what
  \<^verbatim>\<open>auth.uid()\<close> and \<^verbatim>\<open>supabase.auth.getUser()\<close> yield, \<open>None\<close> for an anonymous
  visitor) and, possibly, a storage-layer failure that hits the call. A failure is
  either an exception raised by the client (\<open>Transport\<close>) or an error reply of the
  backend with its code (\<open>Backend\<close>, for instance \<^verbatim>\<open>42P01\<close> when the relation is missing).
  The client resolves to a pair \<^verbatim>\<open>{ data, error }\<close>, each of which may be null.
\<close>

datatype fault = Transport | Backend pg_code

record session =
  auth_uid :: "uuid option"
  fault :: "fault option"

datatype 'a response = Threw | Resolved (data: "'a option") (error: "pg_code option")

text \<open>
  The exceptions the service methods throw. Each \<^verbatim>\<open>Failed to ...: message\<close> error carries
  the code of the storage error it was built from.
\<close>

datatype service_error =
    AlreadyVoted
  | FailedToCastVote pg_code
  | FailedToCreatePoll pg_code
  | FailedToGenerateShareLink pg_code
  | FailedToDisableSharing pg_code
  | FailedToFetchPoll pg_code
  | TableNotFound
  | NotAuthenticated
  | Rethrown
  | NullData

section \<open>Row level security\<close>

text \<open>
  \<^verbatim>\<open>user_id = auth.uid()\<close> is true only when both sides are present and equal (a
  comparison with NULL is not true).
\<close>

definition owner_is :: "uuid option \<Rightarrow> poll \<Rightarrow> bool" where
  "owner_is uid p = (case (user_id p, uid) of (Some a, Some b) \<Rightarrow> a = b | _ \<Rightarrow> False)"

text \<open>Policy "Users can view own polls and shared polls" (FOR SELECT).\<close>

definition polls_select_policy :: "uuid option \<Rightarrow> poll \<Rightarrow> bool" where
  "polls_select_policy uid p =
     (owner_is uid p \<or> user_id p = None \<or> (is_public p \<and> share_token p \<noteq> None))"

text \<open>
  Policy "Anyone can view votes for public polls" (FOR SELECT). Its subquery reads
  \<^verbatim>\<open>polls\<close> as the caller, so only polls the caller may select count.
\<close>

definition votes_select_policy :: "uuid option \<Rightarrow> database \<Rightarrow> vote \<Rightarrow> bool" where
  "votes_select_policy uid d v =
     list_ex (\<lambda>p. polls_select_policy uid p \<and> id' p = poll_id v
                  \<and> (is_public p \<or> owner_is uid p)) (polls d)"

text \<open>Policy "Anyone can insert votes for public polls" (FOR INSERT WITH CHECK).\<close>

definition votes_insert_policy :: "uuid option \<Rightarrow> database \<Rightarrow> vote \<Rightarrow> bool" where
  "votes_insert_policy uid d v =
     list_ex (\<lambda>p. polls_select_policy uid p \<and> id' p = poll_id v \<and> is_public p) (polls d)"

section \<open>Casting a vote\<close>

text \<open>The column \<^verbatim>\<open>option_index INTEGER\<close> holds a 32-bit signed integer.\<close>

definition int4_range :: "int \<Rightarrow> bool" where
  "int4_range i = (- 2147483648 \<le> i \<and> i \<le> 2147483647)"

text \<open>
  \<^verbatim>\<open>supabase.from("votes").insert(row)\<close> against the \<^verbatim>\<open>votes\<close> table. The strings of
  the request must be storable (22P05). The values are then converted in the order of
  the columns: \<^verbatim>\<open>option_index INTEGER\<close> first (22003), \<^verbatim>\<open>voter_session VARCHAR(255)\<close>
  after it (22001, or cut when only spaces exceed the bound); the row that goes on is
  the converted one. The insert policy must hold (42501), \<^verbatim>\<open>UNIQUE(poll_id,
  voter_session)\<close> must hold (23505) and \<^verbatim>\<open>poll_id\<close> must reference a poll (23503). A
  plain insert resolves with null data. Nothing in the table looks at the poll's options.
\<close>

definition insert_votes :: "session \<Rightarrow> database \<Rightarrow> vote \<Rightarrow> unit response \<times> database" where
  "insert_votes se d r =
     (case fault se of
        Some Transport \<Rightarrow> (Threw, d)
      | Some (Backend c) \<Rightarrow> (Resolved None (Some c), d)
      | None \<Rightarrow>
          if has_nul (poll_id r) \<or> has_nul (voter_session r)
            then (Resolved None (Some ''22P05''), d)
          else if \<not> int4_range (vote_option_index r) then (Resolved None (Some ''22003''), d)
          else (case varchar 255 (voter_session r) of
                  None \<Rightarrow> (Resolved None (Some ''22001''), d)
                | Some s \<Rightarrow>
                    (let row = r\<lparr>voter_session := s\<rparr>
                     in if \<not> votes_insert_policy (auth_uid se) d row
                          then (Resolved None (Some ''42501''), d)
                        else if list_ex (\<lambda>v. poll_id v = poll_id row
                                              \<and> voter_session v = voter_session row) (votes d)
                          then (Resolved None (Some ''23505''), d)
                        else if \<not> list_ex (\<lambda>p. id' p = poll_id row) (polls d)
                          then (Resolved None (Some ''23503''), d)
                        else (Resolved None None, d\<lparr>votes := votes d @ [row]\<rparr>))))"

text \<open>
  \<^verbatim>\<open>DatabaseService.castVote\<close> (lib/database.ts): one insert; error code 23505 becomes
  "You have already voted on this poll", any other error "Failed to cast vote", and an
  exception of the client is rethrown.
\<close>

definition castVote ::
  "session \<Rightarrow> database \<Rightarrow> uuid \<Rightarrow> int \<Rightarrow> ustring \<Rightarrow> (service_error + unit) \<times> database" where
  "castVote se d pollId optionIndex voterSession =
     (case insert_votes se d
             \<lparr>poll_id = pollId, vote_option_index = optionIndex, voter_session = voterSession\<rparr> of
        (Threw, d') \<Rightarrow> (Inl Rethrown, d')
      | (Resolved _ (Some c), d') \<Rightarrow>
          (if c = ''23505'' then Inl AlreadyVoted else Inl (FailedToCastVote c), d')
      | (Resolved _ None, d') \<Rightarrow> (Inr (), d'))"

section \<open>Creating a poll\<close>

text \<open>
  \<^verbatim>\<open>String.prototype.trim\<close> strips white space and line terminators at both ends: tab,
  line feed, vertical tab, form feed, carriage return, space, no-break space, U+1680,
  U+2000 to U+200A, U+2028, U+2029, U+202F, U+205F, U+3000 and U+FEFF. SQL's
  \<^verbatim>\<open>trim(text)\<close> strips spaces only.
\<close>

definition js_space :: "nat \<Rightarrow> bool" where
  "js_space c =
     (c \<in> set [0x09, 0x0A, 0x0B, 0x0C, 0x0D, 0x20, 0xA0, 0x1680, 0x2028, 0x2029, 0x202F,
                0x205F, 0x3000, 0xFEFF]
      \<or> (0x2000 \<le> c \<and> c \<le> 0x200A))"

definition trim_by :: "(nat \<Rightarrow> bool) \<Rightarrow> ustring \<Rightarrow> ustring" where
  "trim_by ws s = rev (dropWhile ws (rev (dropWhile ws s)))"

definition js_trim :: "ustring \<Rightarrow> ustring" where
  "js_trim = trim_by js_space"

definition pg_trim :: "ustring \<Rightarrow> ustring" where
  "pg_trim = trim_by (\<lambda>c. c = 0x20)"

text \<open>\<^verbatim>\<open>supabase.from("polls").select("id").limit(1)\<close>, the probe of \<^verbatim>\<open>checkTableExists\<close>.\<close>

definition select_polls_probe :: "session \<Rightarrow> database \<Rightarrow> uuid list response" where
  "select_polls_probe se d =
     (case fault se of
        Some Transport \<Rightarrow> Threw
      | Some (Backend c) \<Rightarrow> Resolved None (Some c)
      | None \<Rightarrow>
          Resolved (Some (map id' (take 1 (filter (polls_select_policy (auth_uid se)) (polls d))))) None)"

text \<open>\<^verbatim>\<open>return !error || error.code !== "42P01"\<close>, and \<^verbatim>\<open>false\<close> in the catch block.\<close>

definition checkTableExists :: "session \<Rightarrow> database \<Rightarrow> bool" where
  "checkTableExists se d =
     (case select_polls_probe se d of
        Threw \<Rightarrow> False
      | Resolved _ None \<Rightarrow> True
      | Resolved _ (Some c) \<Rightarrow> c \<noteq> ''42P01'')"

text \<open>
  The two CHECK constraints of \<^verbatim>\<open>polls\<close>. \<^verbatim>\<open>array_length(options, 1)\<close> is NULL for an
  empty array, and a CHECK constraint is violated only when its expression is false:
  the NULL comparison of an empty array satisfies it.
\<close>

definition polls_check_question :: "ustring \<Rightarrow> bool" where
  "polls_check_question q = (5 \<le> length (pg_trim q))"

definition array_length :: "'a list \<Rightarrow> nat option" where
  "array_length xs = (if xs = [] then None else Some (length xs))"

definition polls_check_options :: "ustring list \<Rightarrow> bool" where
  "polls_check_options os = (case array_length os of None \<Rightarrow> True | Some n \<Rightarrow> 2 \<le> n)"

text \<open>
  \<^verbatim>\<open>supabase.from("polls").insert({question, options, user_id}).select().single()\<close>.
  The new row takes its \<^verbatim>\<open>id\<close> from \<^verbatim>\<open>uuid_generate_v4()\<close> (the argument \<open>new_id\<close>) and
  the defaults \<^verbatim>\<open>is_public = false\<close>, \<^verbatim>\<open>share_token = NULL\<close>. The strings of the
  request must be storable (22P05). The row must pass the insert policy
  \<^verbatim>\<open>user_id = auth.uid()\<close> (42501), the CHECK constraints (23514) and the primary key
  (23505), and be visible to the caller to be returned (42501).
\<close>

definition insert_polls ::
  "session \<Rightarrow> uuid \<Rightarrow> database \<Rightarrow> ustring \<Rightarrow> ustring list \<Rightarrow> uuid \<Rightarrow> poll response \<times> database" where
  "insert_polls se new_id d q os uid =
     (case fault se of
        Some Transport \<Rightarrow> (Threw, d)
      | Some (Backend c) \<Rightarrow> (Resolved None (Some c), d)
      | None \<Rightarrow>
          (let row = \<lparr>id' = new_id, question = q, options = os, user_id = Some uid,
                      is_public = False, share_token = None\<rparr>
           in if has_nul q \<or> list_ex has_nul os \<or> has_nul uid
                then (Resolved None (Some ''22P05''), d)
              else if \<not> owner_is (auth_uid se) row then (Resolved None (Some ''42501''), d)
              else if \<not> (polls_check_question q \<and> polls_check_options os)
                then (Resolved None (Some ''23514''), d)
              else if list_ex (\<lambda>p. id' p = new_id) (polls d) then (Resolved None (Some ''23505''), d)
              else if \<not> polls_select_policy (auth_uid se) row then (Resolved None (Some ''42501''), d)
              else (Resolved (Some row) None, d\<lparr>polls := polls d @ [row]\<rparr>)))"

text \<open>
  \<^verbatim>\<open>DatabaseService.createPoll\<close> (lib/database.ts): the table probe, the authenticated
  user, then the insert of the trimmed question and of the options that are not blank.
  The method itself checks neither the length of the question nor the number of options.
\<close>

definition createPoll ::
  "session \<Rightarrow> uuid \<Rightarrow> database \<Rightarrow> ustring \<Rightarrow> ustring list \<Rightarrow> (service_error + poll) \<times> database" where
  "createPoll se new_id d q os =
     (if \<not> checkTableExists se d then (Inl TableNotFound, d)
      else case auth_uid se of
        None \<Rightarrow> (Inl NotAuthenticated, d)
      | Some user \<Rightarrow>
          (case insert_polls se new_id d (js_trim q) (filter (\<lambda>opt. js_trim opt \<noteq> []) os) user of
             (Threw, d') \<Rightarrow> (Inl Rethrown, d')
           | (Resolved _ (Some c), d') \<Rightarrow> (Inl (FailedToCreatePoll c), d')
           | (Resolved None None, d') \<Rightarrow> (Inl NullData, d')
           | (Resolved (Some row) None, d') \<Rightarrow> (Inr row, d')))"

text \<open>
  \<^verbatim>\<open>addOption\<close> of the creation form: the only place that bounds the number of options
  from above.
\<close>

definition addOption :: "ustring list \<Rightarrow> ustring list" where
  "addOption os = (if length os < 6 then os @ [[]] else os)"

section \<open>Share links\<close>

text \<open>
  \<^verbatim>\<open>supabase.from("polls").update({is_public, share_token}).eq("id", pollId)\<close>. The token
  must fit \<^verbatim>\<open>share_token VARCHAR(32)\<close> (22001). The update policy \<^verbatim>\<open>user_id = auth.uid()\<close>
  selects the rows that are updated: a row of another owner is skipped without any
  error. \<^verbatim>\<open>share_token ... UNIQUE\<close> must hold afterwards (23505; NULLs never clash).
\<close>

definition update_polls_sharing ::
  "session \<Rightarrow> database \<Rightarrow> uuid \<Rightarrow> bool \<Rightarrow> ustring option \<Rightarrow> unit response \<times> database" where
  "update_polls_sharing se d pollId pub tok =
     (case fault se of
        Some Transport \<Rightarrow> (Threw, d)
      | Some (Backend c) \<Rightarrow> (Resolved None (Some c), d)
      | None \<Rightarrow>
          if (case tok of None \<Rightarrow> False | Some t \<Rightarrow> 32 < length t)
            then (Resolved None (Some ''22001''), d)
          else (let ps = map (\<lambda>p. if id' p = pollId \<and> owner_is (auth_uid se) p
                                    then p\<lparr>is_public := pub, share_token := tok\<rparr> else p) (polls d)
                in if \<not> distinct (List.map_filter share_token ps)
                     then (Resolved None (Some ''23505''), d)
                   else (Resolved None None, d\<lparr>polls := ps\<rparr>)))"

text \<open>
  \<^verbatim>\<open>DatabaseService.generateShareLink\<close>. \<open>tokenResp\<close> is the reply of
  \<^verbatim>\<open>supabase.rpc("generate_share_token")\<close> (random hexadecimal digits, or an error when
  the function is missing) and \<open>localToken\<close> the token built from \<^verbatim>\<open>Math.random()\<close>.
\<close>

definition generateShareLink ::
  "session \<Rightarrow> ustring response \<Rightarrow> ustring \<Rightarrow> database \<Rightarrow> uuid
     \<Rightarrow> (service_error + ustring option) \<times> database" where
  "generateShareLink se tokenResp localToken d pollId =
     (case tokenResp of
        Threw \<Rightarrow> (Inl Rethrown, d)
      | Resolved tokenData tokenError \<Rightarrow>
          (let shareToken = (if tokenError \<noteq> None then Some localToken else tokenData)
           in case update_polls_sharing se d pollId True shareToken of
                (Threw, d') \<Rightarrow> (Inl Rethrown, d')
              | (Resolved _ (Some c), d') \<Rightarrow> (Inl (FailedToGenerateShareLink c), d')
              | (Resolved _ None, d') \<Rightarrow> (Inr shareToken, d')))"

text \<open>\<^verbatim>\<open>DatabaseService.disableSharing\<close>.\<close>

definition disableSharing ::
  "session \<Rightarrow> database \<Rightarrow> uuid \<Rightarrow> (service_error + unit) \<times> database" where
  "disableSharing se d pollId =
     (case update_polls_sharing se d pollId False None of
        (Threw, d') \<Rightarrow> (Inl Rethrown, d')
      | (Resolved _ (Some c), d') \<Rightarrow> (Inl (FailedToDisableSharing c), d')
      | (Resolved _ None, d') \<Rightarrow> (Inr (), d'))"

text \<open>
  \<^verbatim>\<open>.select("*").eq("share_token", shareToken).eq("is_public", true).single()\<close>:
  \<^verbatim>\<open>single()\<close> answers PGRST116 unless exactly one row is found.
\<close>

definition select_poll_by_share_token :: "session \<Rightarrow> database \<Rightarrow> ustring \<Rightarrow> poll response" where
  "select_poll_by_share_token se d shareToken =
     (case fault se of
        Some Transport \<Rightarrow> Threw
      | Some (Backend c) \<Rightarrow> Resolved None (Some c)
      | None \<Rightarrow>
          (case filter (\<lambda>p. polls_select_policy (auth_uid se) p
                            \<and> share_token p = Some shareToken \<and> is_public p) (polls d) of
             [p] \<Rightarrow> Resolved (Some p) None
           | _ \<Rightarrow> Resolved None (Some ''PGRST116'')))"

text \<open>\<^verbatim>\<open>DatabaseService.getPollByShareToken\<close>: \<open>Inr None\<close> is the \<^verbatim>\<open>null\<close> it returns.\<close>

definition getPollByShareToken :: "session \<Rightarrow> database \<Rightarrow> ustring \<Rightarrow> service_error + poll option" where
  "getPollByShareToken se d shareToken =
     (case select_poll_by_share_token se d shareToken of
        Threw \<Rightarrow> Inl Rethrown
      | Resolved _ (Some c) \<Rightarrow> (if c = ''PGRST116'' then Inr None else Inl (FailedToFetchPoll c))
      | Resolved None None \<Rightarrow> Inl NullData
      | Resolved (Some row) None \<Rightarrow> Inr (Some row))"

section \<open>Statistics\<close>

text \<open>
  An entry of \<^verbatim>\<open>get_poll_statistics\<close> (the interface \<^verbatim>\<open>PollStatistics\<close>). The column
  \<^verbatim>\<open>percentage NUMERIC(5,2)\<close> is an exact decimal; it is kept as a rational number, and
  the quotient of two NUMERIC values is taken as the exact quotient.
\<close>

record PollStatistics =
  option_index :: int
  vote_count :: int
  percentage :: rat

text \<open>SQL's \<^verbatim>\<open>ROUND(x, n)\<close> on NUMERIC: to \<open>n\<close> decimal places, ties away from zero.\<close>

definition ROUND :: "rat \<Rightarrow> nat \<Rightarrow> rat" where
  "ROUND x n =
     (if 0 \<le> x then of_int \<lfloor>x * 10 ^ n + 1 / 2\<rfloor> / 10 ^ n
      else - (of_int \<lfloor>- x * 10 ^ n + 1 / 2\<rfloor> / 10 ^ n))"

text \<open>
  The rows of \<^verbatim>\<open>votes\<close> a query of the caller sees for one poll
  (\<^verbatim>\<open>FROM votes v WHERE v.poll_id = poll_uuid\<close> under the select policy; the functions
  run with the rights of their caller).
\<close>

definition votes_of_poll :: "uuid option \<Rightarrow> database \<Rightarrow> uuid \<Rightarrow> vote list" where
  "votes_of_poll uid d poll_uuid =
     filter (\<lambda>v. votes_select_policy uid d v \<and> poll_id v = poll_uuid) (votes d)"

text \<open>
  The SQL function \<^verbatim>\<open>get_poll_statistics(poll_uuid)\<close>: \<open>vote_counts\<close> has one row for each
  option index that occurs among the votes (\<^verbatim>\<open>GROUP BY v.option_index\<close>, \<^verbatim>\<open>COUNT( * )\<close>),
  \<open>total\<close> is \<^verbatim>\<open>COALESCE(SUM(count), 0)\<close>, and the result is ordered by option index.
\<close>

definition get_poll_statistics :: "uuid option \<Rightarrow> database \<Rightarrow> uuid \<Rightarrow> PollStatistics list" where
  "get_poll_statistics uid d poll_uuid =
     (let vs = votes_of_poll uid d poll_uuid;
          vote_counts = map (\<lambda>i. (i, int (length (filter (\<lambda>v. vote_option_index v = i) vs))))
                            (remdups (map vote_option_index vs));
          total = sum_list (map snd vote_counts)
      in sort_key option_index
           (map (\<lambda>(i, count).
                   \<lparr>option_index = i, vote_count = count,
                    percentage = (if 0 < total
                                  then ROUND (of_int count / of_int total * 100) 2 else 0)\<rparr>)
                vote_counts))"

text \<open>The SQL function \<^verbatim>\<open>get_poll_total_votes(poll_uuid)\<close>.\<close>

definition get_poll_total_votes :: "uuid option \<Rightarrow> database \<Rightarrow> uuid \<Rightarrow> int" where
  "get_poll_total_votes uid d poll_uuid = int (length (votes_of_poll uid d poll_uuid))"

text \<open>\<^verbatim>\<open>supabase.rpc(name, args)\<close>: the value of the function, unless the call fails.\<close>

definition rpc :: "session \<Rightarrow> 'a \<Rightarrow> 'a response" where
  "rpc se r =
     (case fault se of
        Some Transport \<Rightarrow> Threw
      | Some (Backend c) \<Rightarrow> Resolved None (Some c)
      | None \<Rightarrow> Resolved (Some r) None)"

text \<open>
  \<^verbatim>\<open>DatabaseService.getPollStatistics\<close>: \<^verbatim>\<open>[]\<close> on an error and in the catch block,
  \<^verbatim>\<open>data || []\<close> otherwise.
\<close>

definition getPollStatistics :: "session \<Rightarrow> database \<Rightarrow> uuid \<Rightarrow> PollStatistics list" where
  "getPollStatistics se d pollId =
     (case rpc se (get_poll_statistics (auth_uid se) d pollId) of
        Threw \<Rightarrow> []
      | Resolved _ (Some c) \<Rightarrow> []
      | Resolved None None \<Rightarrow> []
      | Resolved (Some rows) None \<Rightarrow> rows)"

text \<open>
  \<^verbatim>\<open>DatabaseService.getPollTotalVotes\<close>: \<^verbatim>\<open>0\<close> on an error and in the catch block,
  \<^verbatim>\<open>data || 0\<close> otherwise.
\<close>

definition getPollTotalVotes :: "session \<Rightarrow> database \<Rightarrow> uuid \<Rightarrow> int" where
  "getPollTotalVotes se d pollId =
     (case rpc se (get_poll_total_votes (auth_uid se) d pollId) of
        Threw \<Rightarrow> 0
      | Resolved _ (Some c) \<Rightarrow> 0
      | Resolved None None \<Rightarrow> 0
      | Resolved (Some n) None \<Rightarrow> n)"

text \<open>
  \<^verbatim>\<open>.from("votes").select("option_index").eq("poll_id", ..).eq("voter_session", ..).single()\<close>
\<close>

definition select_user_vote :: "session \<Rightarrow> database \<Rightarrow> uuid \<Rightarrow> ustring \<Rightarrow> int response" where
  "select_user_vote se d pollId voterSession =
     (case fault se of
        Some Transport \<Rightarrow> Threw
      | Some (Backend c) \<Rightarrow> Resolved None (Some c)
      | None \<Rightarrow>
          (case filter (\<lambda>v. voter_session v = voterSession) (votes_of_poll (auth_uid se) d pollId) of
             [v] \<Rightarrow> Resolved (Some (vote_option_index v)) None
           | _ \<Rightarrow> Resolved None (Some ''PGRST116'')))"

text \<open>\<^verbatim>\<open>DatabaseService.getUserVote\<close>: \<^verbatim>\<open>null\<close> on every error.\<close>

definition getUserVote :: "session \<Rightarrow> database \<Rightarrow> uuid \<Rightarrow> ustring \<Rightarrow> int option" where
  "getUserVote se d pollId voterSession =
     (case select_user_vote se d pollId voterSession of
        Threw \<Rightarrow> None
      | Resolved _ (Some c) \<Rightarrow> None
      | Resolved dat None \<Rightarrow> dat)"

text \<open>The interface \<^verbatim>\<open>PollWithStats\<close>, which extends \<^verbatim>\<open>Poll\<close>.\<close>

record PollWithStats = poll +
  total_votes :: int
  statistics :: "PollStatistics list"
  user_vote :: "int option"

text \<open>
  \<^verbatim>\<open>DatabaseService.getPollByShareTokenWithStats\<close>; \<open>voterSession\<close> is optional, and an
  empty string counts as absent (\<^verbatim>\<open>voterSession ? ... : null\<close>).
\<close>

definition getPollByShareTokenWithStats ::
  "session \<Rightarrow> database \<Rightarrow> ustring \<Rightarrow> ustring option \<Rightarrow> service_error + PollWithStats option" where
  "getPollByShareTokenWithStats se d shareToken voterSession =
     (case getPollByShareToken se d shareToken of
        Inl e \<Rightarrow> Inl e
      | Inr None \<Rightarrow> Inr None
      | Inr (Some p) \<Rightarrow>
          Inr (Some \<lparr>id' = id' p, question = question p, options = options p,
                     user_id = user_id p, is_public = is_public p, share_token = share_token p,
                     total_votes = getPollTotalVotes se d (id' p),
                     statistics = getPollStatistics se d (id' p),
                     user_vote = (case voterSession of
                                    None \<Rightarrow> None
                                  | Some s \<Rightarrow> if s = [] then None else getUserVote se d (id' p) s)\<rparr>))"

section \<open>The winning option\<close>

text \<open>
  What the public poll page shows as the leading option. \<^verbatim>\<open>poll.options[i]\<close> is
  \<^verbatim>\<open>undefined\<close> outside the array, hence the optional label.
\<close>

record winning =
  option' :: "ustring option"
  optionIndex :: int
  votes' :: int
  percentage' :: rat

definition option_at :: "ustring list \<Rightarrow> int \<Rightarrow> ustring option" where
  "option_at os i = (if 0 \<le> i \<and> i < int (length os) then Some (os ! nat i) else None)"

text \<open>
  \<^verbatim>\<open>getWinningOption\<close> of the public poll page: \<^verbatim>\<open>null\<close> without a poll or without
  statistics; otherwise \<^verbatim>\<open>Math.max\<close> over the vote counts and the first entry, in the
  order of the list, that reaches it; \<^verbatim>\<open>null\<close> when that maximum is 0.
\<close>

definition getWinningOption :: "PollWithStats option \<Rightarrow> winning option" where
  "getWinningOption poll =
     (case poll of
        None \<Rightarrow> None
      | Some pl \<Rightarrow>
          (case statistics pl of
             [] \<Rightarrow> None
           | s # ss \<Rightarrow>
               (let maxVotes = fold max (map vote_count ss) (vote_count s);
                    winningStats = find (\<lambda>stat. vote_count stat = maxVotes) (statistics pl)
                in case winningStats of
                     None \<Rightarrow> None
                   | Some ws \<Rightarrow>
                       if maxVotes = 0 then None
                       else Some \<lparr>option' = option_at (options pl) (option_index ws),
                                  optionIndex = option_index ws,
                                  votes' = vote_count ws,
                                  percentage' = percentage ws\<rparr>)))"

text \<open>
  \<^verbatim>\<open>getWinningOption\<close> of the user dashboard: the same scan on a poll that is always
  present; the result has no \<^verbatim>\<open>optionIndex\<close> and is the triple of label, votes and
  percentage.
\<close>

definition getWinningOption_dashboard :: "PollWithStats \<Rightarrow> (ustring option \<times> int \<times> rat) option" where
  "getWinningOption_dashboard pl =
     (case statistics pl of
        [] \<Rightarrow> None
      | s # ss \<Rightarrow>
          (let maxVotes = fold max (map vote_count ss) (vote_count s);
               winningStats = find (\<lambda>stat. vote_count stat = maxVotes) (statistics pl)
           in case winningStats of
                None \<Rightarrow> None
              | Some ws \<Rightarrow>
                  if maxVotes = 0 then None
                  else Some (option_at (options pl) (option_index ws), vote_count ws, percentage ws)))"

section \<open>Example data\<close>

text \<open>
  A signed-in owner, an anonymous visitor, and a database with one shared poll. They
  serve as concrete inputs below.
\<close>

definition owner_session :: session where
  "owner_session = \<lparr>auth_uid = Some (str ''u1''), fault = None\<rparr>"

definition other_session :: session where
  "other_session = \<lparr>auth_uid = Some (str ''u2''), fault = None\<rparr>"

definition visitor_session :: session where
  "visitor_session = \<lparr>auth_uid = None, fault = None\<rparr>"

definition empty_db :: database where
  "empty_db = \<lparr>polls = [], votes = []\<rparr>"

definition poll_AB :: poll where
  "poll_AB = \<lparr>id' = str ''p1'', question = str ''A or B?'', options = [str ''A'', str ''B''],
              user_id = Some (str ''u1''), is_public = True, share_token = Some (str ''tok'')\<rparr>"

definition shared_db :: database where
  "shared_db = \<lparr>polls = [poll_AB], votes = []\<rparr>"

text \<open>
  The scenario of the three ballots: the owner creates the poll and publishes it, then
  three visitors' sessions vote 0, 0 and 1.
\<close>

definition published_db :: database where
  "published_db =
     snd (generateShareLink owner_session (Resolved (Some (str ''tok'')) None) (str ''local'')
            (snd (createPoll owner_session (str ''p1'') empty_db (str ''A or B?'') [str ''A'', str ''B''])) (str ''p1''))"

definition scenario_db :: database where
  "scenario_db =
     fold (\<lambda>(i, s) d. snd (castVote visitor_session d (str ''p1'') i s))
          [(0, (str ''s1'')), (0, (str ''s2'')), (1, (str ''s3''))] published_db"

text \<open>
  One of the sample polls that the setup script inserts: it has no owner. And a
  database in which the owner's poll has not been shared yet.
\<close>

definition legacy_poll :: poll where
  "legacy_poll = \<lparr>id' = str ''p0'', question = str ''What is the best time to have meetings?'',
                  options = [str ''Morning (9-11 AM)'', str ''Afternoon (1-3 PM)'', str ''Late afternoon (3-5 PM)''],
                  user_id = None, is_public = False, share_token = None\<rparr>"

definition legacy_db :: database where
  "legacy_db = \<lparr>polls = [legacy_poll], votes = []\<rparr>"

definition private_db :: database where
  "private_db = \<lparr>polls = [poll_AB\<lparr>is_public := False, share_token := None\<rparr>], votes = []\<rparr>"

definition one_vote_db :: database where
  "one_vote_db =
     \<lparr>polls = [poll_AB],
      votes = [\<lparr>poll_id = str ''p1'', vote_option_index = 0, voter_session = str ''s1''\<rparr>]\<rparr>"

text \<open>
  A session whose storage calls fail because the relation is missing, and a poll with
  statistics in which both options have one vote.
\<close>

definition failing_session :: session where
  "failing_session = \<lparr>auth_uid = None, fault = Some (Backend ''42P01'')\<rparr>"

definition tie_poll :: PollWithStats where
  "tie_poll =
     \<lparr>id' = str ''p1'', question = str ''A or B?'', options = [str ''A'', str ''B''],
      user_id = Some (str ''u1''), is_public = True, share_token = Some (str ''tok''),
      total_votes = 2,
      statistics = [\<lparr>option_index = 0, vote_count = 1, percentage = 50\<rparr>,
                    \<lparr>option_index = 1, vote_count = 1, percentage = 50\<rparr>],
      user_vote = None\<rparr>"

section \<open>Facts about the example data\<close>

lemmas example_defs =
  owner_session_def other_session_def visitor_session_def empty_db_def poll_AB_def shared_db_def
  legacy_poll_def legacy_db_def private_db_def one_vote_db_def failing_session_def
  str_def has_nul_def varchar_def

lemma published_db_eq: "published_db = shared_db"
  by (simp add: published_db_def generateShareLink_def createPoll_def checkTableExists_def
      select_polls_probe_def insert_polls_def update_polls_sharing_def owner_is_def
      polls_check_question_def polls_check_options_def array_length_def js_trim_def pg_trim_def
      trim_by_def js_space_def polls_select_policy_def List.map_filter_def Let_def example_defs)

lemma scenario_db_eq:
  "scenario_db =
     \<lparr>polls = [poll_AB],
      votes = [\<lparr>poll_id = str ''p1'', vote_option_index = 0, voter_session = str ''s1''\<rparr>,
               \<lparr>poll_id = str ''p1'', vote_option_index = 0, voter_session = str ''s2''\<rparr>,
               \<lparr>poll_id = str ''p1'', vote_option_index = 1, voter_session = str ''s3''\<rparr>]\<rparr>"
  by (simp add: scenario_db_def published_db_eq castVote_def insert_votes_def int4_range_def
      votes_insert_policy_def polls_select_policy_def owner_is_def example_defs)

section \<open>One vote for each session and poll\<close>


lemma castVote_failure_keeps_state:
  "isl (fst (castVote se d pollId i voterSession)) \<Longrightarrow>
   snd (castVote se d pollId i voterSession) = d"
  by (auto simp: castVote_def insert_votes_def Let_def
      split: option.splits fault.splits if_splits)




section \<open>What castVote checks\<close>




section \<open>Creating a poll: what is refused and what is stored\<close>

lemma trim_by_no_edge:
  "trim_by P s = [] \<or> (\<not> P (hd (trim_by P s)) \<and> \<not> P (last (trim_by P s)))"
proof (cases "trim_by P s = []")
  case True
  then show ?thesis by simp
next
  case False
  define y where "y = dropWhile P s"
  define z where "z = dropWhile P (rev y)"
  have x: "trim_by P s = rev z"
    by (simp add: trim_by_def y_def z_def)
  with False have zne: "z \<noteq> []" by simp
  then have hz: "\<not> P (hd z)"
    unfolding z_def by (rule hd_dropWhile)
  have "rev y = takeWhile P (rev y) @ z"
    by (simp add: z_def)
  then have "y = rev z @ rev (takeWhile P (rev y))"
    by (metis rev_append rev_rev_ident)
  with zne have hy: "hd y = hd (rev z)" and yne: "y \<noteq> []"
    by (metis hd_append2 rev_is_Nil_conv, metis Nil_is_append_conv rev_is_Nil_conv)
  from yne have "\<not> P (hd y)"
    unfolding y_def by (rule hd_dropWhile)
  with hy hz zne show ?thesis
    by (simp add: x last_rev)
qed

lemma dropWhile_id: "xs = [] \<or> \<not> P (hd xs) \<Longrightarrow> dropWhile P xs = xs"
  by (cases xs) auto

lemma trim_by_trim_by:
  assumes "\<And>c. Q c \<Longrightarrow> P c"
  shows "trim_by Q (trim_by P s) = trim_by P s"
proof -
  let ?x = "trim_by P s"
  from trim_by_no_edge[of P s] assms
  have e: "?x = [] \<or> (\<not> Q (hd ?x) \<and> \<not> Q (last ?x))"
    by blast
  then have 1: "dropWhile Q ?x = ?x"
    by (intro dropWhile_id) blast
  from e have 2: "dropWhile Q (rev ?x) = rev ?x"
    by (intro dropWhile_id) (auto simp: hd_rev)
  show ?thesis
    unfolding trim_by_def[of Q ?x] 1 2 by simp
qed

text \<open>The table's \<^verbatim>\<open>trim\<close> finds nothing left to strip on a question the client trimmed.\<close>

lemma pg_trim_js_trim: "pg_trim (js_trim q) = js_trim q"
  unfolding pg_trim_def js_trim_def
  by (rule trim_by_trim_by) (simp add: js_space_def)

lemma polls_check_question_js_trim:
  "polls_check_question (js_trim q) = (5 \<le> length (js_trim q))"
  by (simp add: polls_check_question_def pg_trim_js_trim)

lemma polls_check_options_iff: "polls_check_options os = (os = [] \<or> 2 \<le> length os)"
  by (simp add: polls_check_options_def array_length_def)

lemma createPoll_failure_keeps_state:
  "createPoll se new_id d q os = (Inl e, d') \<Longrightarrow> d' = d"
  by (auto simp: createPoll_def insert_polls_def Let_def
      split: option.splits fault.splits if_splits)

lemmas createPoll_eval =
  createPoll_def checkTableExists_def select_polls_probe_def insert_polls_def owner_is_def
  polls_check_question_def polls_check_options_def array_length_def js_trim_def pg_trim_def
  trim_by_def js_space_def polls_select_policy_def Let_def

text \<open>
  The CHECK on the options does not see an empty array: when every option is blank, the
  row is stored without options.
\<close>

lemma createPoll_all_blank_stored:
  "createPoll owner_session (str ''p3'') empty_db (str ''A or B?'') [str '' '', []]
     = (Inr \<lparr>id' = str ''p3'', question = str ''A or B?'', options = [],
              user_id = Some (str ''u1''), is_public = False, share_token = None\<rparr>,
        \<lparr>polls = [\<lparr>id' = str ''p3'', question = str ''A or B?'', options = [],
                   user_id = Some (str ''u1''), is_public = False, share_token = None\<rparr>],
         votes = []\<rparr>)"
  by (simp add: createPoll_eval example_defs)

text \<open>
  C5, as stated, fails: seven options, none of them blank, are accepted and stored.
\<close>

theorem createPoll_seven_options_counterexample:
  "length [str ''a'', str ''b'', str ''c'', str ''d'', str ''e'', str ''f'', str ''g''] = 7
   \<and> createPoll owner_session (str ''p2'') empty_db (str ''Which letter?'')
        [str ''a'', str ''b'', str ''c'', str ''d'', str ''e'', str ''f'', str ''g'']
     = (Inr \<lparr>id' = str ''p2'', question = str ''Which letter?'',
              options = [str ''a'', str ''b'', str ''c'', str ''d'', str ''e'', str ''f'', str ''g''],
              user_id = Some (str ''u1''), is_public = False, share_token = None\<rparr>,
        \<lparr>polls = [\<lparr>id' = str ''p2'', question = str ''Which letter?'',
                   options = [str ''a'', str ''b'', str ''c'', str ''d'', str ''e'', str ''f'', str ''g''],
                   user_id = Some (str ''u1''), is_public = False, share_token = None\<rparr>],
         votes = []\<rparr>)"
  by (simp add: createPoll_eval example_defs)

text \<open>
  C5, amended. \<open>createPoll\<close> fails, and the database stays as it was, when the trimmed
  question has fewer than 5 characters and when exactly one option that is not blank
  remains. It sets no upper bound on the number of options: the creation form does, whose
  \<open>addOption\<close> never takes a list of at most 6 options beyond 6.
\<close>

theorem createPoll_rejects:
  "(length (js_trim q) < 5 \<longrightarrow> (\<exists>e. createPoll se new_id d q os = (Inl e, d)))
   \<and> (length (filter (\<lambda>opt. js_trim opt \<noteq> []) os) = 1 \<longrightarrow>
        (\<exists>e. createPoll se new_id d q os = (Inl e, d)))
   \<and> (length os \<le> 6 \<longrightarrow> length (addOption os) \<le> 6)"
proof (intro conjI impI)
  assume "length (js_trim q) < 5"
  then have "\<not> polls_check_question (js_trim q)"
    by (simp add: polls_check_question_js_trim)
  then show "\<exists>e. createPoll se new_id d q os = (Inl e, d)"
    by (auto simp: createPoll_def insert_polls_def Let_def
        split: option.splits fault.splits)
next
  assume "length (filter (\<lambda>opt. js_trim opt \<noteq> []) os) = 1"
  then have "\<not> polls_check_options (filter (\<lambda>opt. js_trim opt \<noteq> []) os)"
    by (auto simp: polls_check_options_iff)
  then show "\<exists>e. createPoll se new_id d q os = (Inl e, d)"
    by (auto simp: createPoll_def insert_polls_def Let_def
        split: option.splits fault.splits)
next
  assume "length os \<le> 6"
  then show "length (addOption os) \<le> 6"
    by (simp add: addOption_def)
qed

theorem createPoll_rejects_witness:
  "(\<exists>e. createPoll owner_session (str ''p2'') empty_db (str ''  Hi  '') [str ''A'', str ''B'']
          = (Inl e, empty_db))
   \<and> (\<exists>e. createPoll owner_session (str ''p2'') empty_db (str ''A or B?'') [str ''A'', str '' '']
          = (Inl e, empty_db))
   \<and> length (addOption [str ''1'', str ''2'', str ''3'', str ''4'', str ''5'', str ''6'']) \<le> 6"
proof -
  have a: "length (js_trim (str ''  Hi  '')) < 5"
    by (simp add: js_trim_def trim_by_def js_space_def str_def)
  have b: "length (filter (\<lambda>opt. js_trim opt \<noteq> []) [str ''A'', str '' '']) = 1"
    by (simp add: js_trim_def trim_by_def js_space_def str_def)
  have c: "length [str ''1'', str ''2'', str ''3'', str ''4'', str ''5'', str ''6''] \<le> 6"
    by simp
  from createPoll_rejects[where q = "str ''  Hi  ''" and se = owner_session
      and new_id = "str ''p2''" and d = empty_db and os = "[str ''A'', str ''B'']"] a
  have 1: "\<exists>e. createPoll owner_session (str ''p2'') empty_db (str ''  Hi  '') [str ''A'', str ''B'']
          = (Inl e, empty_db)"
    by blast
  from createPoll_rejects[where q = "str ''A or B?''" and se = owner_session
      and new_id = "str ''p2''" and d = empty_db and os = "[str ''A'', str '' '']"] b
  have 2: "\<exists>e. createPoll owner_session (str ''p2'') empty_db (str ''A or B?'') [str ''A'', str '' '']
          = (Inl e, empty_db)"
    by blast
  from createPoll_rejects[where os = "[str ''1'', str ''2'', str ''3'', str ''4'', str ''5'', str ''6'']"] c
  have 3: "length (addOption [str ''1'', str ''2'', str ''3'', str ''4'', str ''5'', str ''6'']) \<le> 6"
    by blast
  from 1 2 3 show ?thesis by blast
qed






section \<open>Share links\<close>

lemma set_map_filter: "set (List.map_filter f xs) = {y. \<exists>x\<in>set xs. f x = Some y}"
  by (induction xs) (auto split: option.splits)

text \<open>Where the tokens are pairwise different, a token names one row.\<close>

lemma unique_token_filter:
  assumes "distinct (List.map_filter f xs)" and "x \<in> set xs" and "f x = Some t"
  shows "filter (\<lambda>q. f q = Some t) xs = [x]"
  using assms
proof (induction xs)
  case Nil
  then show ?case by simp
next
  case (Cons a xs)
  show ?case
  proof (cases "f a = Some t")
    case True
    with Cons.prems(1) have nt: "t \<notin> set (List.map_filter f xs)"
      by simp
    then have none: "filter (\<lambda>q. f q = Some t) xs = []"
      by (auto simp: set_map_filter filter_empty_conv)
    from nt Cons.prems(2,3) have "x = a"
      by (auto simp: set_map_filter)
    with True none show ?thesis by simp
  next
    case False
    with Cons.prems have "x \<in> set xs" and "distinct (List.map_filter f xs)"
      by (auto split: option.splits)
    with Cons.IH Cons.prems(3) False show ?thesis by simp
  qed
qed

lemma distinct_tokens_cleared:
  assumes "distinct (List.map_filter share_token ps)"
  shows "distinct (List.map_filter share_token
           (map (\<lambda>p. if c p then p\<lparr>is_public := pub, share_token := None\<rparr> else p) ps))"
  using assms
proof (induction ps)
  case Nil
  then show ?case by simp
next
  case (Cons a ps)
  have sub: "set (List.map_filter share_token
           (map (\<lambda>p. if c p then p\<lparr>is_public := pub, share_token := None\<rparr> else p) ps))
        \<subseteq> set (List.map_filter share_token ps)"
    by (auto simp: set_map_filter split: if_splits)
  from Cons show ?case
    using sub by (auto split: option.splits)
qed

lemma update_polls_sharing_success:
  assumes "update_polls_sharing se d pollId pub tok = (Resolved x None, d1)"
  shows "fault se = None"
    and "polls d1 = map (\<lambda>p. if id' p = pollId \<and> owner_is (auth_uid se) p
                               then p\<lparr>is_public := pub, share_token := tok\<rparr> else p) (polls d)"
    and "votes d1 = votes d"
    and "distinct (List.map_filter share_token (polls d1))"
  using assms
  by (auto simp: update_polls_sharing_def Let_def split: option.splits fault.splits if_splits)

lemma generateShareLink_success:
  assumes "generateShareLink se tokenResp localToken d pollId = (Inr tk, d1)"
  shows "\<exists>x. update_polls_sharing se d pollId True tk = (Resolved x None, d1)"
  using assms
  by (auto simp: generateShareLink_def Let_def
      split: response.splits option.splits prod.splits if_splits)

lemma getPollByShareToken_public:
  assumes "getPollByShareToken viewer d t = Inr (Some q)"
  shows "is_public q \<and> share_token q = Some t \<and> q \<in> set (polls d)"
proof -
  let ?rows = "filter (\<lambda>p. polls_select_policy (auth_uid viewer) p
                            \<and> share_token p = Some t \<and> is_public p) (polls d)"
  from assms have "?rows = [q]"
    by (auto simp: getPollByShareToken_def select_poll_by_share_token_def
        split: option.splits fault.splits list.splits if_splits)
  then have "q \<in> set ?rows" by simp
  then show ?thesis by simp
qed

lemmas share_eval =
  generateShareLink_def disableSharing_def update_polls_sharing_def getPollByShareToken_def
  select_poll_by_share_token_def polls_select_policy_def owner_is_def Let_def

text \<open>
  C7, as stated, fails for a poll the caller does not own, and so for every poll without
  an owner: the update touches no row and reports no error, \<open>generateShareLink\<close> returns
  the token all the same, and the token finds nothing.
\<close>

theorem generateShareLink_not_owner_counterexample:
  "legacy_poll \<in> set (polls legacy_db)
   \<and> generateShareLink owner_session (Resolved (Some (str ''t0'')) None) (str ''l0'') legacy_db (str ''p0'')
       = (Inr (Some (str ''t0'')), legacy_db)
   \<and> getPollByShareToken owner_session legacy_db (str ''t0'') = Inr None
   \<and> generateShareLink other_session (Resolved (Some (str ''t1'')) None) (str ''l1'') private_db (str ''p1'')
       = (Inr (Some (str ''t1'')), private_db)
   \<and> getPollByShareToken other_session private_db (str ''t1'') = Inr None"
  by (simp add: share_eval example_defs)

text \<open>
  C7, amended. For a poll that the calling user owns: when \<open>generateShareLink\<close> returns a
  token, \<open>getPollByShareToken\<close> with that token returns, to any visitor whose call reaches
  storage, that poll, now public and carrying the token; \<open>disableSharing\<close> by the owner
  then succeeds, and afterwards the token finds nothing. Whatever \<open>getPollByShareToken\<close>
  returns is public.
\<close>

theorem share_link_round_trip:
  assumes "p \<in> set (polls d)" and "owner_is (auth_uid se) p" and "fault viewer = None"
    and "generateShareLink se tokenResp localToken d (id' p) = (Inr (Some t), d1)"
  shows "getPollByShareToken viewer d1 t
           = Inr (Some (p\<lparr>is_public := True, share_token := Some t\<rparr>))
       \<and> fst (disableSharing se d1 (id' p)) = Inr ()
       \<and> getPollByShareToken viewer (snd (disableSharing se d1 (id' p))) t = Inr None
       \<and> (\<forall>v' d' t' q. getPollByShareToken v' d' t' = Inr (Some q) \<longrightarrow> is_public q)"
proof -
  let ?p' = "p\<lparr>is_public := True, share_token := Some t\<rparr>"
  from generateShareLink_success[OF assms(4)] obtain x
    where u: "update_polls_sharing se d (id' p) True (Some t) = (Resolved x None, d1)" by blast
  note s = update_polls_sharing_success[OF u]
  have mem: "?p' \<in> set (polls d1)"
    using assms(1,2) by (force simp: s(2))
  have one: "filter (\<lambda>q. share_token q = Some t) (polls d1) = [?p']"
    using s(4) mem by (intro unique_token_filter) simp_all
  have "filter (\<lambda>q. polls_select_policy (auth_uid viewer) q \<and> share_token q = Some t
                     \<and> is_public q) (polls d1)
        = filter (\<lambda>q. polls_select_policy (auth_uid viewer) q \<and> is_public q)
            (filter (\<lambda>q. share_token q = Some t) (polls d1))"
    by (simp add: conj_commute conj_left_commute)
  also have "\<dots> = [?p']"
    by (simp add: one polls_select_policy_def)
  finally have rows:
    "filter (\<lambda>q. polls_select_policy (auth_uid viewer) q \<and> share_token q = Some t
                  \<and> is_public q) (polls d1) = [?p']" .
  have A: "getPollByShareToken viewer d1 t = Inr (Some ?p')"
    using assms(3) by (simp add: getPollByShareToken_def select_poll_by_share_token_def rows)
  let ?ps2 = "map (\<lambda>q. if id' q = id' p \<and> owner_is (auth_uid se) q
                        then q\<lparr>is_public := False, share_token := None\<rparr> else q) (polls d1)"
  have d2: "distinct (List.map_filter share_token ?ps2)"
    using s(4) by (rule distinct_tokens_cleared)
  have dis: "disableSharing se d1 (id' p) = (Inr (), d1\<lparr>polls := ?ps2\<rparr>)"
    using s(1) d2 by (simp add: disableSharing_def update_polls_sharing_def Let_def)
  have own': "owner_is (auth_uid se) ?p'"
    using assms(2) by (simp add: owner_is_def)
  have only: "id' q = id' p \<and> owner_is (auth_uid se) q"
    if "q \<in> set (polls d1)" and "share_token q = Some t" for q
  proof -
    from that have "q \<in> set (filter (\<lambda>q. share_token q = Some t) (polls d1))" by simp
    then have "q = ?p'" by (simp add: one)
    with own' show ?thesis by simp
  qed
  have gone: "filter (\<lambda>q. share_token q = Some t) ?ps2 = []"
    using only by (auto simp: filter_empty_conv)
  have "filter (\<lambda>q. polls_select_policy (auth_uid viewer) q \<and> share_token q = Some t
                     \<and> is_public q) ?ps2
        = filter (\<lambda>q. polls_select_policy (auth_uid viewer) q \<and> is_public q)
            (filter (\<lambda>q. share_token q = Some t) ?ps2)"
    by (simp add: conj_commute conj_left_commute)
  then have rows2:
    "filter (\<lambda>q. polls_select_policy (auth_uid viewer) q \<and> share_token q = Some t
                  \<and> is_public q) ?ps2 = []"
    by (simp only: gone filter.simps)
  have C: "getPollByShareToken viewer (snd (disableSharing se d1 (id' p))) t = Inr None"
    using assms(3)
    by (simp add: dis getPollByShareToken_def select_poll_by_share_token_def rows2)
  from A dis C getPollByShareToken_public show ?thesis
    by (simp; blast)
qed

theorem share_link_round_trip_witness:
  "generateShareLink owner_session (Resolved (Some (str ''tok'')) None) (str ''local'') private_db (str ''p1'')
     = (Inr (Some (str ''tok'')), shared_db)
   \<and> getPollByShareToken visitor_session shared_db (str ''tok'') = Inr (Some poll_AB)
   \<and> fst (disableSharing owner_session shared_db (str ''p1'')) = Inr ()
   \<and> getPollByShareToken visitor_session (snd (disableSharing owner_session shared_db (str ''p1''))) (str ''tok'')
       = Inr None"
proof -
  let ?p = "poll_AB\<lparr>is_public := False, share_token := None\<rparr>"
  have g: "generateShareLink owner_session (Resolved (Some (str ''tok'')) None) (str ''local'') private_db
             (id' ?p) = (Inr (Some (str ''tok'')), shared_db)"
    by (simp add: share_eval example_defs)
  have h: "?p \<in> set (polls private_db)" "owner_is (auth_uid owner_session) ?p"
    "fault visitor_session = None"
    by (simp_all add: owner_is_def example_defs)
  have i: "id' ?p = (str ''p1'')" "?p\<lparr>is_public := True, share_token := Some (str ''tok'')\<rparr> = poll_AB"
    by (simp_all add: poll_AB_def)
  from share_link_round_trip[OF h g] g show ?thesis
    unfolding i by blast
qed

section \<open>Statistics: counts, percentages, order\<close>







lemma ROUND_examples:
  "ROUND (200 / 3) 2 = 6667 / 100" "ROUND (100 / 3) 2 = 3333 / 100" "ROUND 100 2 = 100"
  by (simp_all add: ROUND_def floor_eq_iff)

lemma scenario_votes_of_poll: "votes_of_poll None scenario_db (str ''p1'') = votes scenario_db"
  by (simp add: votes_of_poll_def scenario_db_eq votes_select_policy_def polls_select_policy_def
      owner_is_def poll_AB_def)

lemma scenario_statistics:
  "get_poll_statistics None scenario_db (str ''p1'') =
     [\<lparr>option_index = 0, vote_count = 2, percentage = 6667 / 100\<rparr>,
      \<lparr>option_index = 1, vote_count = 1, percentage = 3333 / 100\<rparr>]"
  unfolding get_poll_statistics_def scenario_votes_of_poll
  by (simp add: scenario_db_eq Let_def ROUND_examples)

lemma scenario_total: "get_poll_total_votes None scenario_db (str ''p1'') = 3"
  unfolding get_poll_total_votes_def scenario_votes_of_poll
  by (simp add: scenario_db_eq)













section \<open>Failed reads of the statistics\<close>

text \<open>
  C9. Whenever the storage call fails, by an exception or by an error reply of any code,
  \<open>getPollStatistics\<close> returns the empty list and \<open>getPollTotalVotes\<close> returns 0; these
  are the values they return, on a storage that answers, for a poll of which the caller
  sees no vote.
\<close>

theorem statistics_reads_mask_failures:
  "(fault se \<noteq> None \<longrightarrow>
      getPollStatistics se d pollId = [] \<and> getPollTotalVotes se d pollId = 0)
   \<and> (fault se = None \<and> votes_of_poll (auth_uid se) d pollId = [] \<longrightarrow>
      getPollStatistics se d pollId = [] \<and> getPollTotalVotes se d pollId = 0)"
  by (auto simp: getPollStatistics_def getPollTotalVotes_def rpc_def get_poll_statistics_def
      get_poll_total_votes_def split: option.splits fault.splits)

theorem statistics_reads_mask_failures_witness:
  "votes_of_poll None scenario_db (str ''p1'') \<noteq> []
   \<and> getPollStatistics failing_session scenario_db (str ''p1'') = []
   \<and> getPollTotalVotes failing_session scenario_db (str ''p1'') = 0
   \<and> getPollStatistics visitor_session shared_db (str ''p1'') = []
   \<and> getPollTotalVotes visitor_session shared_db (str ''p1'') = 0"
proof -
  have a: "fault failing_session \<noteq> None"
    by (simp add: failing_session_def)
  have b: "fault visitor_session = None
           \<and> votes_of_poll (auth_uid visitor_session) shared_db (str ''p1'') = []"
    by (simp add: votes_of_poll_def example_defs)
  have c: "votes_of_poll None scenario_db (str ''p1'') \<noteq> []"
    unfolding scenario_votes_of_poll by (simp add: scenario_db_eq)
  from statistics_reads_mask_failures[of failing_session scenario_db "str ''p1''"] a
  have 1: "getPollStatistics failing_session scenario_db (str ''p1'') = []
           \<and> getPollTotalVotes failing_session scenario_db (str ''p1'') = 0"
    by blast
  from statistics_reads_mask_failures[of visitor_session shared_db "str ''p1''"] b
  have 2: "getPollStatistics visitor_session shared_db (str ''p1'') = []
           \<and> getPollTotalVotes visitor_session shared_db (str ''p1'') = 0"
    by blast
  from 1 2 c show ?thesis by blast
qed

section \<open>The winning option\<close>

lemma fold_max_Max: "fold max (map f ss) (f s) = Max (set (map f (s # ss)))"
  unfolding list.map by (rule Max.set_eq_fold[symmetric])

text \<open>In a list sorted by a key, the first element with a property has the least key.\<close>

lemma find_first_sorted:
  assumes "find P xs = Some x" and "sorted (map f xs)" and "e \<in> set xs" and "P e"
  shows "f x \<le> f e"
proof -
  from assms(1) obtain i where i: "i < length xs" "x = xs ! i" "\<forall>j<i. \<not> P (xs ! j)"
    by (auto simp: find_Some_iff)
  from assms(3) obtain k where k: "k < length xs" "e = xs ! k"
    by (auto simp: in_set_conv_nth)
  with assms(4) i(3) have "i \<le> k"
    by (metis not_le_imp_less)
  with assms(2) k(1) have "map f xs ! i \<le> map f xs ! k"
    by (intro sorted_nth_mono) simp_all
  with i k show ?thesis by simp
qed

lemma find_max_exists:
  assumes "xs \<noteq> []"
  shows "\<exists>x. find (\<lambda>st. f st = Max (set (map f xs))) xs = Some x"
proof -
  have "Max (set (map f xs)) \<in> set (map f xs)"
    using assms by (intro Max_in) simp_all
  then obtain e where "e \<in> set xs" "f e = Max (set (map f xs))"
    by auto
  then have "find (\<lambda>st. f st = Max (set (map f xs))) xs \<noteq> None"
    by (auto simp: find_None_iff)
  then show ?thesis by blast
qed

lemma getWinningOption_unfold:
  assumes "statistics pl \<noteq> []"
  shows "getWinningOption (Some pl) =
     (case find (\<lambda>st. vote_count st = Max (set (map vote_count (statistics pl))))
             (statistics pl) of
        None \<Rightarrow> None
      | Some ws \<Rightarrow> if Max (set (map vote_count (statistics pl))) = 0 then None
                   else Some \<lparr>option' = option_at (options pl) (option_index ws),
                              optionIndex = option_index ws, votes' = vote_count ws,
                              percentage' = percentage ws\<rparr>)"
proof -
  from assms obtain s ss where st: "statistics pl = s # ss"
    by (cases "statistics pl") auto
  have M: "fold max (map vote_count ss) (vote_count s)
             = Max (set (map vote_count (statistics pl)))"
    unfolding st by (rule fold_max_Max)
  have "getWinningOption (Some pl) =
     (let maxVotes = fold max (map vote_count ss) (vote_count s);
          winningStats = find (\<lambda>stat. vote_count stat = maxVotes) (statistics pl)
      in case winningStats of
           None \<Rightarrow> None
         | Some ws \<Rightarrow>
             if maxVotes = 0 then None
             else Some \<lparr>option' = option_at (options pl) (option_index ws),
                        optionIndex = option_index ws,
                        votes' = vote_count ws,
                        percentage' = percentage ws\<rparr>)"
    unfolding getWinningOption_def by (simp only: st option.case list.case)
  then show ?thesis
    unfolding M Let_def .
qed

text \<open>The dashboard shows the same winner as the public page, without its index.\<close>

lemma getWinningOption_dashboard_eq:
  "getWinningOption_dashboard pl =
     map_option (\<lambda>w. (option' w, votes' w, percentage' w)) (getWinningOption (Some pl))"
  by (simp add: getWinningOption_dashboard_def getWinningOption_def Let_def
      split: list.splits option.splits)

text \<open>
  C10. For statistics in ascending order of option index: \<open>getWinningOption\<close> returns
  \<^verbatim>\<open>null\<close> exactly when the list is empty or the greatest vote count is 0; otherwise it
  returns an entry with the greatest vote count, and no entry with that count has a
  smaller option index. The dashboard's variant returns the same winner.
\<close>

theorem getWinningOption_lowest_index:
  assumes "sorted (map option_index (statistics pl))"
  shows "(getWinningOption (Some pl) = None \<longleftrightarrow>
            statistics pl = [] \<or> Max (set (map vote_count (statistics pl))) = 0)
       \<and> (\<forall>w. getWinningOption (Some pl) = Some w \<longrightarrow>
            (\<exists>e\<in>set (statistics pl).
                vote_count e = Max (set (map vote_count (statistics pl)))
                \<and> optionIndex w = option_index e \<and> votes' w = vote_count e
                \<and> percentage' w = percentage e
                \<and> option' w = option_at (options pl) (option_index e))
            \<and> (\<forall>e\<in>set (statistics pl).
                  vote_count e = Max (set (map vote_count (statistics pl))) \<longrightarrow>
                  optionIndex w \<le> option_index e))
       \<and> getWinningOption_dashboard pl =
           map_option (\<lambda>w. (option' w, votes' w, percentage' w)) (getWinningOption (Some pl))"
proof (cases "statistics pl = []")
  case True
  then show ?thesis
    by (simp add: getWinningOption_dashboard_eq) (simp add: getWinningOption_def)
next
  case False
  let ?M = "Max (set (map vote_count (statistics pl)))"
  from find_max_exists[OF False, of vote_count] obtain ws
    where ws: "find (\<lambda>st. vote_count st = ?M) (statistics pl) = Some ws" by blast
  then have wsin: "ws \<in> set (statistics pl)" and wsmax: "vote_count ws = ?M"
    by (auto simp: find_Some_iff)
  have low: "option_index ws \<le> option_index e"
    if "e \<in> set (statistics pl)" and "vote_count e = ?M" for e
    using find_first_sorted[OF ws assms that(1)] that(2) by simp
  have g: "getWinningOption (Some pl) =
      (if ?M = 0 then None
       else Some \<lparr>option' = option_at (options pl) (option_index ws),
                  optionIndex = option_index ws, votes' = vote_count ws,
                  percentage' = percentage ws\<rparr>)"
    unfolding getWinningOption_unfold[OF False] ws option.case ..
  show ?thesis
  proof (cases "?M = 0")
    case True
    with g show ?thesis
      by (simp add: getWinningOption_dashboard_eq)
  next
    case nz: False
    with g False wsin wsmax low show ?thesis
      by (auto simp: getWinningOption_dashboard_eq)
  qed
qed

theorem getWinningOption_lowest_index_witness:
  "sorted (map option_index (statistics tie_poll))
   \<and> getWinningOption (Some tie_poll)
       = Some \<lparr>option' = Some (str ''A''), optionIndex = 0, votes' = 1, percentage' = 50\<rparr>
   \<and> getWinningOption_dashboard tie_poll = Some (Some (str ''A''), 1, 50)"
proof -
  have h: "sorted (map option_index (statistics tie_poll))"
    by (simp add: tie_poll_def)
  have w: "getWinningOption (Some tie_poll)
       = Some \<lparr>option' = Some (str ''A''), optionIndex = 0, votes' = 1, percentage' = 50\<rparr>"
    by (simp add: getWinningOption_def tie_poll_def option_at_def Let_def)
  from getWinningOption_lowest_index[OF h]
  have "getWinningOption_dashboard tie_poll =
           map_option (\<lambda>w. (option' w, votes' w, percentage' w))
             (getWinningOption (Some tie_poll))"
    by blast
  then have "getWinningOption_dashboard tie_poll = Some (Some (str ''A''), 1, 50)"
    by (simp add: w)
  with h w show ?thesis by blast
qed

section \<open>Three ballots\<close>

text \<open>
  C8. The owner creates the poll with the options A and B and publishes it; three
  sessions vote 0, 0 and 1. The three votes are stored, the statistics are
  (0, 2, 66.67) and (1, 1, 33.33), the total is 3, and the winning option is option 0.
\<close>

theorem three_ballots_scenario:
  "votes scenario_db =
     [\<lparr>poll_id = str ''p1'', vote_option_index = 0, voter_session = str ''s1''\<rparr>,
      \<lparr>poll_id = str ''p1'', vote_option_index = 0, voter_session = str ''s2''\<rparr>,
      \<lparr>poll_id = str ''p1'', vote_option_index = 1, voter_session = str ''s3''\<rparr>]
   \<and> getPollStatistics visitor_session scenario_db (str ''p1'') =
       [\<lparr>option_index = 0, vote_count = 2, percentage = 6667 / 100\<rparr>,
        \<lparr>option_index = 1, vote_count = 1, percentage = 3333 / 100\<rparr>]
   \<and> getPollTotalVotes visitor_session scenario_db (str ''p1'') = 3
   \<and> getPollByShareTokenWithStats visitor_session scenario_db (str ''tok'') (Some (str ''s3'')) =
       Inr (Some \<lparr>id' = str ''p1'', question = str ''A or B?'', options = [str ''A'', str ''B''],
                  user_id = Some (str ''u1''), is_public = True, share_token = Some (str ''tok''),
                  total_votes = 3,
                  statistics = [\<lparr>option_index = 0, vote_count = 2, percentage = 6667 / 100\<rparr>,
                                \<lparr>option_index = 1, vote_count = 1, percentage = 3333 / 100\<rparr>],
                  user_vote = Some 1\<rparr>)
   \<and> getWinningOption
        (Some \<lparr>id' = str ''p1'', question = str ''A or B?'', options = [str ''A'', str ''B''],
               user_id = Some (str ''u1''), is_public = True, share_token = Some (str ''tok''),
               total_votes = 3,
               statistics = [\<lparr>option_index = 0, vote_count = 2, percentage = 6667 / 100\<rparr>,
                             \<lparr>option_index = 1, vote_count = 1, percentage = 3333 / 100\<rparr>],
               user_vote = Some 1\<rparr>)
       = Some \<lparr>option' = Some (str ''A''), optionIndex = 0, votes' = 2, percentage' = 6667 / 100\<rparr>"
proof -
  have st: "getPollStatistics visitor_session scenario_db (str ''p1'') =
       [\<lparr>option_index = 0, vote_count = 2, percentage = 6667 / 100\<rparr>,
        \<lparr>option_index = 1, vote_count = 1, percentage = 3333 / 100\<rparr>]"
    by (simp add: getPollStatistics_def rpc_def visitor_session_def scenario_statistics)
  have tv: "getPollTotalVotes visitor_session scenario_db (str ''p1'') = 3"
    by (simp add: getPollTotalVotes_def rpc_def visitor_session_def scenario_total)
  have uv: "getUserVote visitor_session scenario_db (str ''p1'') (str ''s3'') = Some 1"
    by (simp add: getUserVote_def select_user_vote_def visitor_session_def
        scenario_votes_of_poll) (simp add: scenario_db_eq str_def)
  have gp: "getPollByShareToken visitor_session scenario_db (str ''tok'') = Inr (Some poll_AB)"
    by (simp add: getPollByShareToken_def select_poll_by_share_token_def visitor_session_def
        scenario_db_eq polls_select_policy_def owner_is_def poll_AB_def)
  have ws: "getPollByShareTokenWithStats visitor_session scenario_db (str ''tok'') (Some (str ''s3'')) =
       Inr (Some \<lparr>id' = str ''p1'', question = str ''A or B?'', options = [str ''A'', str ''B''],
                  user_id = Some (str ''u1''), is_public = True, share_token = Some (str ''tok''),
                  total_votes = 3,
                  statistics = [\<lparr>option_index = 0, vote_count = 2, percentage = 6667 / 100\<rparr>,
                                \<lparr>option_index = 1, vote_count = 1, percentage = 3333 / 100\<rparr>],
                  user_vote = Some 1\<rparr>)"
    unfolding getPollByShareTokenWithStats_def gp
    by (simp add: poll_AB_def st tv uv) (simp add: str_def)
  have w: "getWinningOption
        (Some \<lparr>id' = str ''p1'', question = str ''A or B?'', options = [str ''A'', str ''B''],
               user_id = Some (str ''u1''), is_public = True, share_token = Some (str ''tok''),
               total_votes = 3,
               statistics = [\<lparr>option_index = 0, vote_count = 2, percentage = 6667 / 100\<rparr>,
                             \<lparr>option_index = 1, vote_count = 1, percentage = 3333 / 100\<rparr>],
               user_vote = Some 1\<rparr>)
       = Some \<lparr>option' = Some (str ''A''), optionIndex = 0, votes' = 2, percentage' = 6667 / 100\<rparr>"
    by (simp add: getWinningOption_def option_at_def Let_def)
  from st tv ws w show ?thesis
    by (simp add: scenario_db_eq)
qed

end
